theory Spec2Isabelle
  imports Complex_Main
begin

section \<open>Data model\<close>

text \<open>
  Returns are real numbers. A cell of a derived table is a \<open>real option\<close>, where
  \<open>None\<close> is the missing value (NaN) that pandas writes where a statistic is
  undefined. A Series is the list of its cells in index order, and a DataFrame is the
  list of its columns, all over the same index; timestamps are positions in that index
  (the index is strictly ordered and has no duplicates). The return panel handed to
  \<open>pre_evaluation\<close> holds one column per asset, the cash column last.
\<close>

type_synonym cell = "real option"
type_synonym series = "cell list"
type_synonym frame = "series list"
type_synonym panel = "real list list"

datatype error =
    IndexError
  | ValueError
  | TypeError
  | NameError
  | AttributeError
  | AssertionError
  | NotImplementedError
  | MissingValueError
  | InsufficientHistoryError
  | ShapeMismatchError

section \<open>The pandas operations used by the estimators\<close>

text \<open>\<open>Series.shift(k)\<close>: every cell moves \<open>k\<close> positions down, the first \<open>k\<close> cells
  become missing, and the index (hence the length) stays.\<close>

definition shift :: "nat \<Rightarrow> 'a option list \<Rightarrow> 'a option list" where
  "shift k c = take (length c) (replicate k None @ c)"

text \<open>The window of \<open>rolling(window=L)\<close> at row \<open>i\<close>: the \<open>L\<close> rows ending at \<open>i\<close>,
  row \<open>i\<close> included.\<close>

definition window :: "nat \<Rightarrow> nat \<Rightarrow> 'a list \<Rightarrow> 'a list" where
  "window L i c = take L (drop (i + 1 - L) c)"

text \<open>\<open>rolling(window=L).agg()\<close> on one column: \<open>min_periods\<close> defaults to the window
  length, so a row with fewer than \<open>L\<close> observations up to it is missing.\<close>

definition rolling_at :: "nat \<Rightarrow> (real list \<Rightarrow> cell) \<Rightarrow> nat \<Rightarrow> real list \<Rightarrow> cell" where
  "rolling_at L f i c = (if L \<le> i + 1 then f (window L i c) else None)"

definition rolling :: "nat \<Rightarrow> (real list \<Rightarrow> cell) \<Rightarrow> real list \<Rightarrow> series" where
  "rolling L f c = map (\<lambda>i. rolling_at L f i c) [0..<length c]"


text \<open>The sample statistics: the mean of no observation is missing; variance and
  covariance use \<open>ddof = 1\<close> and are missing on fewer than two observations.\<close>

definition mean :: "real list \<Rightarrow> cell" where
  "mean xs = (if xs = [] then None else Some (sum_list xs / real (length xs)))"

definition avg :: "real list \<Rightarrow> real" where
  "avg xs = sum_list xs / real (length xs)"

definition cov :: "real list \<Rightarrow> real list \<Rightarrow> cell" where
  "cov xs ys =
     (if length xs \<le> 1 then None
      else Some (sum_list (map2 (\<lambda>x y. (x - avg xs) * (y - avg ys)) xs ys)
                 / (real (length xs) - 1)))"

definition var :: "real list \<Rightarrow> cell" where
  "var xs = cov xs xs"

definition std :: "real list \<Rightarrow> cell" where
  "std xs = map_option sqrt (var xs)"

text \<open>\<open>ewm(halflife=h)\<close> with the default \<open>adjust=True\<close>, \<open>min_periods=0\<close>: the
  statistic at row \<open>i\<close> is taken over rows \<open>0..i\<close>, the observation \<open>k\<close> rows back
  weighted by \<open>(1 - alpha) ^ k\<close> with \<open>1 - alpha = exp (- ln 2 / h)\<close>.\<close>

definition decay :: "real \<Rightarrow> real" where
  "decay h = exp (- ln 2 / h)"

definition ewm_weights :: "real \<Rightarrow> nat \<Rightarrow> real list" where
  "ewm_weights h n = rev (map (\<lambda>k. decay h ^ k) [0..<n])"

definition wavg :: "real list \<Rightarrow> real list \<Rightarrow> real" where
  "wavg ws xs = sum_list (map2 (*) ws xs) / sum_list ws"

definition ewm_mean :: "real \<Rightarrow> real list \<Rightarrow> cell" where
  "ewm_mean h xs = (if xs = [] then None else Some (wavg (ewm_weights h (length xs)) xs))"



definition ewm :: "(real list \<Rightarrow> cell) \<Rightarrow> real list \<Rightarrow> series" where
  "ewm f c = map (\<lambda>i. f (take (i + 1) c)) [0..<length c]"


text \<open>\<open>returns.ewm(halflife=h)\<close> itself raises \<open>ValueError\<close> unless \<open>h > 0\<close>.\<close>

definition check_halflife :: "real \<Rightarrow> error + unit" where
  "check_halflife h = (if 0 < h then Inr () else Inl ValueError)"




definition frame_div :: "frame \<Rightarrow> real \<Rightarrow> frame" where
  "frame_div f x = map (map (map_option (\<lambda>v. v / x))) f"

text \<open>\<open>frame.iloc[:, -1] = s\<close>: the last column is replaced; a frame without columns has
  no position \<open>-1\<close>.\<close>

definition set_last_column :: "frame \<Rightarrow> series \<Rightarrow> error + frame" where
  "set_last_column f s = (if f = [] then Inl IndexError else Inr (butlast f @ [s]))"

text \<open>\<open>frame.iloc[:, -1] = x\<close> for a number \<open>x\<close>: every cell of the last column
  becomes \<open>x\<close>.\<close>

definition fill_last_column :: "frame \<Rightarrow> real \<Rightarrow> error + frame" where
  "fill_last_column f x =
     (if f = [] then Inl IndexError else Inr (butlast f @ [map (\<lambda>_. Some x) (last f)]))"

definition last_column :: "'a list list \<Rightarrow> error + 'a list" where
  "last_column p = (if p = [] then Inl IndexError else Inr (last p))"

text \<open>Sequencing of steps that may raise.\<close>

definition bind :: "error + 'a \<Rightarrow> ('a \<Rightarrow> error + 'b) \<Rightarrow> error + 'b" where
  "bind r k = (case r of Inl e \<Rightarrow> Inl e | Inr x \<Rightarrow> k x)"

section \<open>Resolving a time-indexed parameter\<close>




section \<open>Return forecasts (returns.py)\<close>

text \<open>Each \<open>pre_evaluation\<close> below returns the table it stores in its parameter field
  (\<open>expected_returns\<close>, \<open>deltas_errors\<close>, \<open>Sigma\<close>, \<open>standard_deviations\<close>), or
  the exception it raises. The call to the base class that follows the assignment belongs
  to a module outside the sources and does not touch that table.\<close>

definition RollingWindowReturnsForecast_pre_evaluation ::
  "nat \<Rightarrow> bool \<Rightarrow> panel \<Rightarrow> error + frame" where
  "RollingWindowReturnsForecast_pre_evaluation lookback_period use_last_for_cash returns =
     (let forecasts = map (\<lambda>c. shift 1 (rolling lookback_period mean c)) returns
      in if use_last_for_cash
         then bind (last_column returns) (\<lambda>cash. set_last_column forecasts (shift 1 (map Some cash)))
         else Inr forecasts)"

definition ExponentialWindowReturnsForecast_pre_evaluation ::
  "real \<Rightarrow> bool \<Rightarrow> panel \<Rightarrow> error + frame" where
  "ExponentialWindowReturnsForecast_pre_evaluation half_life use_last_for_cash returns =
     bind (check_halflife half_life) (\<lambda>_.
       let forecasts = map (\<lambda>c. shift 1 (ewm (ewm_mean half_life) c)) returns
       in if use_last_for_cash
          then bind (last_column returns) (\<lambda>cash. set_last_column forecasts (shift 1 (map Some cash)))
          else Inr forecasts)"

definition RollingWindowReturnsForecastErrorRisk_pre_evaluation ::
  "nat \<Rightarrow> bool \<Rightarrow> panel \<Rightarrow> error + frame" where
  "RollingWindowReturnsForecastErrorRisk_pre_evaluation lookback_period zero_for_cash returns =
     (let tmp = frame_div (map (\<lambda>c. shift 1 (rolling lookback_period std c)) returns)
                  (sqrt (real lookback_period))
      in if zero_for_cash
         then fill_last_column tmp 0
         else Inr tmp)"

section \<open>Covariance estimators (risks.py)\<close>







section \<open>Terms and Python values\<close>

text \<open>A compiled term is represented by the number it evaluates to at the given
  holdings. Where the code passes Python objects around, \<open>Expr v\<close> is a cvxpy
  expression whose \<open>.value\<close> is \<open>v\<close> (\<open>None\<close> before it has a realized value),
  \<open>Tuple\<close> a tuple and \<open>PyList\<close> a list.\<close>

datatype pyobj = Expr "real option" | Tuple "pyobj list" | PyList "pyobj list"

text \<open>Benchmark weights: the class default is the scalar \<open>0.0\<close>; \<open>set_benchmark\<close>
  installs a vector.\<close>

datatype benchmark = Scalar real | Weights "real list"

definition subtract :: "real list \<Rightarrow> benchmark \<Rightarrow> error + real list" where
  "subtract w b =
     (case b of
        Scalar x \<Rightarrow> Inr (map (\<lambda>v. v - x) w)
      | Weights bs \<Rightarrow> if length bs = length w then Inr (map2 (-) w bs) else Inl ShapeMismatchError)"

definition multiply :: "real list \<Rightarrow> real list \<Rightarrow> error + real list" where
  "multiply x y = (if length x = length y then Inr (map2 (*) x y) else Inl ShapeMismatchError)"

definition sum_squares :: "real list \<Rightarrow> real" where
  "sum_squares x = sum_list (map (\<lambda>v. v * v) x)"

definition dot :: "real list \<Rightarrow> real list \<Rightarrow> real" where
  "dot x y = sum_list (map2 (*) x y)"


text \<open>\<open>quad_form(x, P)\<close> is \<open>x\<^sup>T P x\<close> for a square matrix \<open>P\<close> (the list of its rows)
  of the dimension of \<open>x\<close>.\<close>

definition quad_form :: "real list \<Rightarrow> real list list \<Rightarrow> error + real" where
  "quad_form x P =
     (if length P = length x \<and> list_all (\<lambda>r. length r = length x) P
      then Inr (dot x (map (\<lambda>r. dot r x) P))
      else Inl ShapeMismatchError)"


section \<open>Return models: compile (returns.py)\<close>



section \<open>Risk models (risks.py)\<close>

text \<open>\<open>BaseRiskModel\<close>: \<open>benchmark_weights\<close> is the class attribute (default \<open>0.0\<close>);
  \<open>w_bench\<close> is set by the deprecated constructor; \<open>expression\<close> exists only once
  \<open>weight_expr\<close> or an \<open>_estimate\<close> has stored it.\<close>

record BaseRiskModel =
  benchmark_weights :: benchmark
  w_bench :: benchmark
  expression :: "pyobj option"

definition BaseRiskModel_init :: "benchmark \<Rightarrow> BaseRiskModel" where
  "BaseRiskModel_init wb = \<lparr>benchmark_weights = Scalar 0, w_bench = wb, expression = None\<rparr>"

definition set_benchmark :: "'a BaseRiskModel_scheme \<Rightarrow> real list \<Rightarrow> 'a BaseRiskModel_scheme" where
  "set_benchmark self bw = self\<lparr>benchmark_weights := Weights bw\<rparr>"

text \<open>\<open>a, b = obj\<close>: only a sequence of exactly two items unpacks.\<close>

fun unpack2 :: "pyobj \<Rightarrow> error + pyobj \<times> pyobj" where
  "unpack2 (Tuple [a, b]) = Inr (a, b)"
| "unpack2 (PyList [a, b]) = Inr (a, b)"
| "unpack2 (Tuple _) = Inl ValueError"
| "unpack2 (PyList _) = Inl ValueError"
| "unpack2 (Expr _) = Inl TypeError"

text \<open>The \<open>_estimate\<close> of a class of the legacy interface acts on the object it
  is called on: it receives the holdings (time, trades and value being fixed for the
  step), returns a Python object or raises, and leaves the object in a new state. Every
  \<open>_estimate\<close> of risks.py assigns fields of \<open>self\<close>.\<close>

type_synonym 's estimate_fn = "'s \<Rightarrow> real list \<Rightarrow> (error + pyobj) \<times> 's"

text \<open>\<open>BaseRiskModel.weight_expr\<close>, for the \<open>_estimate\<close> of the object's class: the
  benchmark is subtracted, \<open>_estimate\<close> runs on the object, its result is unpacked as a
  pair, the first item is stored in \<open>self.expression\<close>, and the tuple of that item and
  an empty list is returned. An exception leaves the object as it is at that point.\<close>

definition weight_expr ::
  "'a BaseRiskModel_scheme estimate_fn \<Rightarrow> 'a BaseRiskModel_scheme
     \<Rightarrow> real list \<Rightarrow> (error + pyobj) \<times> 'a BaseRiskModel_scheme" where
  "weight_expr estimate self w_plus =
     (case subtract w_plus (w_bench self) of
        Inl e \<Rightarrow> (Inl e, self)
      | Inr x \<Rightarrow>
          (case estimate self x of
             (Inl e, self') \<Rightarrow> (Inl e, self')
           | (Inr r, self') \<Rightarrow>
               (case unpack2 r of
                  Inl e \<Rightarrow> (Inl e, self')
                | Inr (e, _) \<Rightarrow> (Inr (Tuple [e, PyList []]), self'\<lparr>expression := Some e\<rparr>))))"

text \<open>\<open>obj.value\<close>: only an expression has the attribute.\<close>

fun value_of :: "pyobj \<Rightarrow> error + real option" where
  "value_of (Expr v) = Inr v"
| "value_of (Tuple _) = Inl AttributeError"
| "value_of (PyList _) = Inl AttributeError"


record FullCovariance = BaseRiskModel +
  Sigma :: "real list list"

definition FullCovariance_compile_to_cvxpy ::
  "FullCovariance \<Rightarrow> real list \<Rightarrow> (error + real) \<times> FullCovariance" where
  "FullCovariance_compile_to_cvxpy self w_plus =
     (bind (subtract w_plus (benchmark_weights self)) (\<lambda>x. quad_form x (Sigma self)), self)"

record DiagonalCovariance = BaseRiskModel +
  standard_deviations :: "real list"

definition DiagonalCovariance_compile_to_cvxpy ::
  "DiagonalCovariance \<Rightarrow> real list \<Rightarrow> (error + real) \<times> DiagonalCovariance" where
  "DiagonalCovariance_compile_to_cvxpy self w_plus =
     (bind (multiply w_plus (standard_deviations self)) (\<lambda>x. Inr (sum_squares x)), self)"



text \<open>\<open>FactorModelSigma.compile_to_cvxpy\<close> takes the holdings as \<open>w_plus\<close> and its body
  reads \<open>wplus\<close>, a name bound neither in the function nor in the module: evaluating
  the right-hand side raises \<open>NameError\<close> at the first use of the name, before any term
  is built and before \<open>self.expression\<close> is assigned.\<close>

record FactorModelSigma = BaseRiskModel +
  exposures :: "real list list"
  factor_Sigma :: "real list list"
  idiosync :: "real list"

definition FactorModelSigma_compile_to_cvxpy ::
  "FactorModelSigma \<Rightarrow> real list \<Rightarrow> (error + real) \<times> FactorModelSigma" where
  "FactorModelSigma_compile_to_cvxpy self w_plus = (Inl NameError, self)"


text \<open>\<open>WorstCaseRisk\<close>: a component is an object together with the \<open>_estimate\<close> of its
  class. \<open>_estimate\<close> collects what each component's \<open>weight_expr\<close> returns, in order,
  stores the list in \<open>self.risks\<close> and hands its items to \<open>cvx.max_elemwise\<close>. A call
  that raises inside the list comprehension leaves \<open>self.risks\<close> as it was; the
  components already visited keep their new state.\<close>

record 'b WorstCaseRisk = BaseRiskModel +
  riskmodels :: "('b BaseRiskModel_scheme \<times> 'b BaseRiskModel_scheme estimate_fn) list"
  risks :: "pyobj list option"

definition WorstCaseRisk_init ::
  "('b BaseRiskModel_scheme \<times> 'b BaseRiskModel_scheme estimate_fn) list \<Rightarrow> benchmark
     \<Rightarrow> 'b WorstCaseRisk" where
  "WorstCaseRisk_init rms wb =
     \<lparr>benchmark_weights = Scalar 0, w_bench = wb, expression = None,
      riskmodels = rms, risks = None\<rparr>"

fun weight_exprs ::
  "('b BaseRiskModel_scheme \<times> 'b BaseRiskModel_scheme estimate_fn) list \<Rightarrow> real list
     \<Rightarrow> (error + pyobj list) \<times> ('b BaseRiskModel_scheme \<times> 'b BaseRiskModel_scheme estimate_fn) list" where
  "weight_exprs [] w = (Inr [], [])"
| "weight_exprs ((r, m) # rs) w =
     (case weight_expr m r w of
        (Inl e, r') \<Rightarrow> (Inl e, (r', m) # rs)
      | (Inr x, r') \<Rightarrow>
          (case weight_exprs rs w of
             (Inl e, rs') \<Rightarrow> (Inl e, (r', m) # rs')
           | (Inr xs, rs') \<Rightarrow> (Inr (x # xs), (r', m) # rs')))"

text \<open>\<open>cvx.max_elemwise(arg1, arg2, *args)\<close>: the elementwise maximum of at least two
  expressions. What the library does with an argument that is not an expression lies
  outside the sources; it is taken to reject it.\<close>

fun expr_values :: "pyobj list \<Rightarrow> error + real list" where
  "expr_values [] = Inr []"
| "expr_values (Expr (Some v) # xs) = bind (expr_values xs) (\<lambda>vs. Inr (v # vs))"
| "expr_values (_ # xs) = Inl TypeError"

definition max_elemwise :: "pyobj list \<Rightarrow> error + pyobj" where
  "max_elemwise args =
     (if length args < 2 then Inl TypeError
      else bind (expr_values args) (\<lambda>vs. Inr (Expr (Some (fold max (tl vs) (hd vs))))))"

definition WorstCaseRisk_estimate :: "'b WorstCaseRisk estimate_fn" where
  "WorstCaseRisk_estimate self wplus =
     (case weight_exprs (riskmodels self) wplus of
        (Inl e, rms) \<Rightarrow> (Inl e, self\<lparr>riskmodels := rms\<rparr>)
      | (Inr rs, rms) \<Rightarrow> (max_elemwise rs, self\<lparr>riskmodels := rms, risks := Some rs\<rparr>))"

text \<open>\<open>risk.value[0, 0]\<close> for every item of \<open>self.risks\<close>, in order; the first item that
  raises ends the comprehension.\<close>

definition value00 :: "pyobj \<Rightarrow> error + real" where
  "value00 r = bind (value_of r) (\<lambda>v. case v of None \<Rightarrow> Inl TypeError | Some x \<Rightarrow> Inr x)"

fun collect :: "('a \<Rightarrow> error + 'b) \<Rightarrow> 'a list \<Rightarrow> error + 'b list" where
  "collect f [] = Inr []"
| "collect f (x # xs) = bind (f x) (\<lambda>y. bind (collect f xs) (\<lambda>ys. Inr (y # ys)))"

definition WorstCaseRisk_optimization_log :: "'b WorstCaseRisk \<Rightarrow> error + real list" where
  "WorstCaseRisk_optimization_log self =
     (case risks self of None \<Rightarrow> Inl AttributeError | Some rs \<Rightarrow> collect value00 rs)"

section \<open>Constructors\<close>









text \<open>\<open>EmpSigma.__init__\<close> asserts that its returns hold no null, whatever the row.\<close>

record EmpSigma = BaseRiskModel +
  returns :: frame
  lookback :: nat






section \<open>The quantities the specification compares with\<close>


text \<open>The sample standard deviation.\<close>

definition sample_std :: "real list \<Rightarrow> real" where
  "sample_std xs = sqrt (sum_list (map (\<lambda>x. (x - avg xs)\<^sup>2) xs) / (real (length xs) - 1))"

text \<open>The \<open>L\<close> periods preceding \<open>t\<close>.\<close>

definition preceding :: "nat \<Rightarrow> nat \<Rightarrow> 'a list \<Rightarrow> 'a list" where
  "preceding L t c = take L (drop (t - L) c)"

text \<open>The diagonal matrix of the squares of a vector.\<close>

definition diag_squares :: "real list \<Rightarrow> real list list" where
  "diag_squares sd =
     map (\<lambda>i. map (\<lambda>j. if i = j then sd ! i * sd ! i else 0) [0..<length sd]) [0..<length sd]"

section \<open>Example inputs\<close>

definition example_panel :: panel where
  "example_panel = [[1, 2, 3], [10, 20, 30]]"


text \<open>A legacy component shaped after those of risks.py, except that its \<open>_estimate\<close>
  returns a pair, the shape \<open>weight_expr\<close> unpacks: it stores an expression of realized
  value \<open>v\<close> in \<open>self.expression\<close> and returns it with an empty list.\<close>

definition pair_estimate :: "real \<Rightarrow> BaseRiskModel estimate_fn" where
  "pair_estimate v self wplus =
     (Inr (Tuple [Expr (Some v), PyList []]), self\<lparr>expression := Some (Expr (Some v))\<rparr>)"

definition pair_component :: "real \<Rightarrow> BaseRiskModel \<times> BaseRiskModel estimate_fn" where
  "pair_component v = (BaseRiskModel_init (Scalar 0), pair_estimate v)"

section \<open>Auxiliary facts about the table operations\<close>

lemma length_shift [simp]: "length (shift k c) = length c"
  by (simp add: shift_def)

lemma shift_nth: "i < length c \<Longrightarrow> shift k c ! i = (if i < k then None else c ! (i - k))"
  by (simp add: shift_def nth_append)

lemma length_rolling [simp]: "length (rolling L f c) = length c"
  by (simp add: rolling_def)

lemma length_ewm [simp]: "length (ewm f c) = length c"
  by (simp add: ewm_def)

lemma window_take: "L \<le> i + 1 \<Longrightarrow> i < t \<Longrightarrow> window L i (take t c) = window L i c"
proof -
  assume a: "L \<le> i + 1" "i < t"
  then have "min L (t - (i + 1 - L)) = L" by simp
  then show ?thesis by (simp add: window_def drop_take)
qed

lemma rolling_at_take: "i < t \<Longrightarrow> rolling_at L f i (take t c) = rolling_at L f i c"
  by (simp add: rolling_at_def window_take)



lemma shift_rolling_nth:
  "t < length c \<Longrightarrow>
   shift 1 (rolling L f c) ! t = (if t = 0 then None else rolling_at L f (t - 1) (take t c))"
proof -
  assume a: "t < length c"
  show ?thesis
  proof (cases t)
    case 0
    with a show ?thesis by (simp add: shift_nth)
  next
    case (Suc u)
    with a have "u < length c" by simp
    then have "rolling L f c ! u = rolling_at L f u c" by (simp add: rolling_def)
    with a Suc show ?thesis by (simp add: shift_nth rolling_at_take)
  qed
qed







































lemma rolling_forecast_frame:
  "RollingWindowReturnsForecast_pre_evaluation L u p =
     (if u then (if p = [] then Inl IndexError
                 else Inr (butlast (map (\<lambda>c. shift 1 (rolling L mean c)) p)
                           @ [shift 1 (map Some (last p))]))
      else Inr (map (\<lambda>c. shift 1 (rolling L mean c)) p))"
  by (simp add: RollingWindowReturnsForecast_pre_evaluation_def last_column_def
      set_last_column_def bind_def)

lemma exponential_forecast_frame:
  "0 < h \<Longrightarrow> ExponentialWindowReturnsForecast_pre_evaluation h u p =
     (if u then (if p = [] then Inl IndexError
                 else Inr (butlast (map (\<lambda>c. shift 1 (ewm (ewm_mean h) c)) p)
                           @ [shift 1 (map Some (last p))]))
      else Inr (map (\<lambda>c. shift 1 (ewm (ewm_mean h) c)) p))"
  by (simp add: ExponentialWindowReturnsForecast_pre_evaluation_def last_column_def
      set_last_column_def bind_def check_halflife_def)

section \<open>Return forecasts and forecast errors\<close>

text \<open>
  Claim C3 (cash column). For the rolling and the exponential return forecast constructed
  with \<open>use_last_for_cash = True\<close>, on a panel with at least one column, the cash forecast
  attributed to any timestamp \<open>t\<close> after the first is the realized cash return at
  \<open>t - 1\<close>, whatever the lookback period and whatever the (positive) half-life.
\<close>

theorem cash_forecast_is_last_return:
  assumes "p \<noteq> []" and "0 < t" and "t < length (last p)"
  shows "(\<exists>f. RollingWindowReturnsForecast_pre_evaluation L True p = Inr f
              \<and> last f ! t = Some (last p ! (t - 1)))
       \<and> (0 < h \<longrightarrow>
            (\<exists>f. ExponentialWindowReturnsForecast_pre_evaluation h True p = Inr f
              \<and> last f ! t = Some (last p ! (t - 1))))"
  using assms by (simp add: rolling_forecast_frame exponential_forecast_frame shift_nth)

text \<open>Witness for C3: the example panel, third timestamp, lookback \<open>250\<close>, half-life \<open>1\<close>.\<close>

theorem cash_forecast_is_last_return_witness:
  "example_panel \<noteq> [] \<and> (0::nat) < 2 \<and> 2 < length (last example_panel) \<and> (0::real) < 1
   \<and> (\<exists>f. RollingWindowReturnsForecast_pre_evaluation 250 True example_panel = Inr f
              \<and> last f ! 2 = Some (last example_panel ! (2 - 1)))
   \<and> (\<exists>f. ExponentialWindowReturnsForecast_pre_evaluation 1 True example_panel = Inr f
              \<and> last f ! 2 = Some (last example_panel ! (2 - 1)))"
proof -
  have a: "example_panel \<noteq> []" and b: "(0::nat) < 2" and c: "2 < length (last example_panel)"
    by (simp_all add: example_panel_def)
  from cash_forecast_is_last_return [OF a b c, of 250 1] a b c show ?thesis by simp
qed


lemma shift_rolling_cell:
  "t < length c \<Longrightarrow>
   shift (Suc 0) (rolling L f c) ! t = (if t = 0 then None else rolling_at L f (t - Suc 0) c)"
  using shift_rolling_nth [of t c L f] by (simp add: rolling_at_take)

lemma noncash_column:
  "j + 1 < length p \<Longrightarrow> (butlast (map g p) @ [s]) ! j = g (p ! j)"
proof -
  assume a: "j + 1 < length p"
  then have "j < length (butlast (map g p))" by simp
  then have "(butlast (map g p) @ [s]) ! j = butlast (map g p) ! j"
    by (simp add: nth_append)
  also from a have "\<dots> = g (p ! j)" by (simp add: nth_butlast)
  finally show ?thesis .
qed



lemma map2_same: "map2 f xs xs = map (\<lambda>x. f x x) xs"
  by (simp add: zip_same_conv_map)

lemma std_sample_std: "2 \<le> length xs \<Longrightarrow> std xs = Some (sample_std xs)"
  by (simp add: std_def var_def cov_def sample_std_def map2_same power2_eq_square)

lemma error_frame:
  "RollingWindowReturnsForecastErrorRisk_pre_evaluation L True p =
     (if p = [] then Inl IndexError
      else Inr (butlast (map (\<lambda>c. map (map_option (\<lambda>v. v / sqrt (real L)))
                                   (shift 1 (rolling L std c))) p)
                @ [replicate (length (last p)) (Some 0)]))"
  by (simp add: RollingWindowReturnsForecastErrorRisk_pre_evaluation_def Let_def
      fill_last_column_def frame_div_def comp_def last_map map_replicate_const)

text \<open>
  Claim C7 (forecast error). For the rolling forecast-error estimator with
  \<open>zero_for_cash = True\<close> the cash column is \<open>0\<close> at every timestamp, and for a window
  length \<open>L \<ge> 2\<close> the value of a non-cash column at a timestamp \<open>t\<close> with at least
  \<open>L\<close> preceding periods is the sample standard deviation of the \<open>L\<close> periods
  preceding \<open>t\<close>, divided by \<open>sqrt L\<close>.
\<close>

theorem forecast_error_is_standard_error:
  assumes "p \<noteq> []"
  shows "\<exists>tmp. RollingWindowReturnsForecastErrorRisk_pre_evaluation L True p = Inr tmp
           \<and> last tmp = replicate (length (last p)) (Some 0)
           \<and> (j + 1 < length p \<longrightarrow> 2 \<le> L \<longrightarrow> L \<le> t \<longrightarrow> t < length (p ! j) \<longrightarrow>
                tmp ! j ! t = Some (sample_std (preceding L t (p ! j)) / sqrt (real L)))"
proof -
  let ?g = "\<lambda>c. map (map_option (\<lambda>v. v / sqrt (real L))) (shift 1 (rolling L std c))"
  let ?tmp = "butlast (map ?g p) @ [replicate (length (last p)) (Some 0)]"
  from assms have pre: "RollingWindowReturnsForecastErrorRisk_pre_evaluation L True p = Inr ?tmp"
    by (simp add: error_frame)
  have cell: "?tmp ! j ! t = Some (sample_std (preceding L t (p ! j)) / sqrt (real L))"
    if j: "j + 1 < length p" and L: "2 \<le> L" and t: "L \<le> t" "t < length (p ! j)"
  proof -
    from L t have w: "window L (t - 1) (p ! j) = preceding L t (p ! j)"
      by (simp add: window_def preceding_def)
    from L t have "length (preceding L t (p ! j)) = L"
      by (simp add: preceding_def)
    with L have "std (preceding L t (p ! j)) = Some (sample_std (preceding L t (p ! j)))"
      by (simp add: std_sample_std)
    with L t w have "shift 1 (rolling L std (p ! j)) ! t
        = Some (sample_std (preceding L t (p ! j)))"
      by (simp add: shift_rolling_cell rolling_at_def)
    with j t show ?thesis by (simp add: noncash_column)
  qed
  from pre cell show ?thesis by auto
qed





text \<open>Witness for C7: the non-cash column of the example panel, \<open>L = 2\<close>, \<open>t = 2\<close>.\<close>

theorem forecast_error_is_standard_error_witness:
  "example_panel \<noteq> [] \<and> 0 + 1 < length example_panel \<and> (2::nat) \<le> 2 \<and> (2::nat) \<le> 2
   \<and> 2 < length (example_panel ! 0)
   \<and> (\<exists>tmp. RollingWindowReturnsForecastErrorRisk_pre_evaluation 2 True example_panel = Inr tmp
           \<and> last tmp = replicate (length (last example_panel)) (Some 0)
           \<and> tmp ! 0 ! 2 = Some (sample_std (preceding 2 2 (example_panel ! 0)) / sqrt (real 2)))"
proof -
  have a: "example_panel \<noteq> []" and b: "0 + 1 < length example_panel"
    and c: "(2::nat) \<le> 2" and d: "2 < length (example_panel ! 0)"
    by (simp_all add: example_panel_def)
  from forecast_error_is_standard_error [OF a, of 2 0 2] a b c d show ?thesis by blast
qed

section \<open>Risk terms\<close>

text \<open>With a zero benchmark the two covariance paths agree on every holdings vector.\<close>

lemma dot_indicator:
  assumes "i < length w"
  shows "dot (map (\<lambda>j. if i = j then a else 0) [0..<length w]) w = a * w ! i"
proof -
  have "map2 (*) (map (\<lambda>j. if i = j then a else 0) [0..<length w]) w
      = map (\<lambda>j. if i = j then a * w ! j else 0) [0..<length w]"
    by (rule nth_equalityI) auto
  then have "dot (map (\<lambda>j. if i = j then a else 0) [0..<length w]) w
      = (\<Sum>j = 0..<length w. if i = j then a * w ! j else 0)"
    by (simp add: dot_def interv_sum_list_conv_sum_set_nat)
  also have "\<dots> = a * w ! i" using assms by simp
  finally show ?thesis .
qed

lemma quad_form_diag:
  assumes "length w = length sd"
  shows "quad_form w (diag_squares sd) = Inr (sum_squares (map2 (*) w sd))"
proof -
  have rows: "map (\<lambda>r. dot r w) (diag_squares sd) = map (\<lambda>i. sd ! i * sd ! i * w ! i) [0..<length sd]"
    using assms dot_indicator [of _ w] by (simp add: diag_squares_def comp_def)
  have "dot w (map (\<lambda>i. sd ! i * sd ! i * w ! i) [0..<length sd])
      = sum_list (map (\<lambda>i. w ! i * (sd ! i * sd ! i * w ! i)) [0..<length sd])"
    unfolding dot_def using assms
    by (intro arg_cong [where f = sum_list] nth_equalityI) auto
  also have "\<dots> = sum_list (map (\<lambda>i. (w ! i * sd ! i) * (w ! i * sd ! i)) [0..<length sd])"
    by (simp add: algebra_simps)
  also have "\<dots> = sum_squares (map2 (*) w sd)"
    unfolding sum_squares_def using assms
    by (intro arg_cong [where f = sum_list] nth_equalityI) auto
  finally have "dot w (map (\<lambda>r. dot r w) (diag_squares sd)) = sum_squares (map2 (*) w sd)"
    by (simp add: rows)
  moreover have "length (diag_squares sd) = length w
      \<and> list_all (\<lambda>r. length r = length w) (diag_squares sd)"
    using assms by (simp add: diag_squares_def list_all_iff)
  ultimately show ?thesis by (simp add: quad_form_def)
qed

lemma diagonal_equals_full_at_zero_benchmark:
  "fst (DiagonalCovariance_compile_to_cvxpy
          \<lparr>benchmark_weights = b, w_bench = wb, expression = e, standard_deviations = sd\<rparr> w)
   = fst (FullCovariance_compile_to_cvxpy
          \<lparr>benchmark_weights = Scalar 0, w_bench = wb', expression = e',
           Sigma = diag_squares sd\<rparr> w)"
proof (cases "length w = length sd")
  case True
  then show ?thesis
    by (simp add: DiagonalCovariance_compile_to_cvxpy_def FullCovariance_compile_to_cvxpy_def
        multiply_def subtract_def bind_def quad_form_diag)
next
  case False
  then show ?thesis
    by (auto simp add: DiagonalCovariance_compile_to_cvxpy_def FullCovariance_compile_to_cvxpy_def
        multiply_def subtract_def bind_def quad_form_def diag_squares_def)
qed

text \<open>
  Claim C4 (diagonal against full covariance). With benchmark weights \<open>[1, 0]\<close>,
  standard deviations \<open>[1, 1]\<close> and holdings \<open>[1, 0]\<close> the deviation from the
  benchmark is zero: the full-covariance term over the diagonal matrix of the squared
  standard deviations is \<open>0\<close>, while the diagonal-covariance term, which never subtracts
  the benchmark, is \<open>1\<close>.
\<close>

theorem diagonal_ignores_benchmark:
  "fst (DiagonalCovariance_compile_to_cvxpy
          \<lparr>benchmark_weights = Weights [1, 0], w_bench = Scalar 0, expression = None,
           standard_deviations = [1, 1]\<rparr> [1, 0]) = Inr 1
   \<and> fst (FullCovariance_compile_to_cvxpy
          \<lparr>benchmark_weights = Weights [1, 0], w_bench = Scalar 0, expression = None,
           Sigma = diag_squares [1, 1]\<rparr> [1, 0]) = Inr 0"
  by (simp add: DiagonalCovariance_compile_to_cvxpy_def FullCovariance_compile_to_cvxpy_def
      multiply_def subtract_def bind_def quad_form_def diag_squares_def sum_squares_def dot_def
      upt_rec)

text \<open>
  Claim C5 (factor model against full covariance). \<open>FactorModelSigma.compile_to_cvxpy\<close>
  produces no term at all: for every model and every holdings vector it raises
  \<open>NameError\<close>.
\<close>

theorem factor_model_compile_raises:
  "fst (FactorModelSigma_compile_to_cvxpy self w_plus) = Inl NameError"
  by (simp add: FactorModelSigma_compile_to_cvxpy_def)

lemma weight_expr_pair_component:
  "weight_expr (pair_estimate v) (BaseRiskModel_init (Scalar 0)) w
     = (Inr (Tuple [Expr (Some v), PyList []]),
        (BaseRiskModel_init (Scalar 0))\<lparr>expression := Some (Expr (Some v))\<rparr>)"
  by (simp add: weight_expr_def pair_estimate_def BaseRiskModel_init_def subtract_def)

text \<open>
  Claim C6 (worst-case risk). Two components with realized values \<open>0.0125\<close> and
  \<open>0.03125\<close>: \<open>_estimate\<close> stores in \<open>self.risks\<close> the tuples that \<open>weight_expr\<close>
  returns, not the expressions; those tuples are what \<open>max_elemwise\<close> is handed, and
  \<open>optimization_log\<close> raises \<open>AttributeError\<close> on the first of them instead of
  reporting the two values.
\<close>

theorem worst_case_log_raises:
  "risks (snd (WorstCaseRisk_estimate
          (WorstCaseRisk_init [pair_component (1 / 80), pair_component (1 / 32)] (Scalar 0))
          [1 / 2, - 1 / 2]))
       = Some [Tuple [Expr (Some (1 / 80)), PyList []], Tuple [Expr (Some (1 / 32)), PyList []]]
   \<and> WorstCaseRisk_optimization_log (snd (WorstCaseRisk_estimate
          (WorstCaseRisk_init [pair_component (1 / 80), pair_component (1 / 32)] (Scalar 0))
          [1 / 2, - 1 / 2])) = Inl AttributeError"
  by (simp add: WorstCaseRisk_estimate_def WorstCaseRisk_init_def pair_component_def
      weight_expr_pair_component WorstCaseRisk_optimization_log_def value00_def bind_def)

text \<open>The same holds for every worst-case model with at least one component: whatever
  the components return, \<open>optimization_log\<close> after \<open>_estimate\<close> raises.\<close>

lemma weight_expr_result:
  "weight_expr m r w = (Inr x, r') \<Longrightarrow> \<exists>e. x = Tuple [e, PyList []]"
  by (auto simp add: weight_expr_def split: sum.splits prod.splits)

lemma weight_exprs_result:
  "weight_exprs rs w = (Inr xs, rs') \<Longrightarrow>
   length xs = length rs \<and> (\<forall>x\<in>set xs. \<exists>e. x = Tuple [e, PyList []])"
proof (induction rs arbitrary: xs rs')
  case Nil
  then show ?case by simp
next
  case (Cons a rs)
  obtain r m where a: "a = (r, m)" by (cases a)
  from Cons.prems a obtain x r1 where h: "weight_expr m r w = (Inr x, r1)"
    by (auto split: sum.splits prod.splits)
  with Cons.prems a obtain ys rs1 where t: "weight_exprs rs w = (Inr ys, rs1)"
    by (auto split: sum.splits prod.splits)
  from h t Cons.prems a have xs: "xs = x # ys" by simp
  from h have "\<exists>e. x = Tuple [e, PyList []]" by (rule weight_expr_result)
  moreover from t have "length ys = length rs \<and> (\<forall>x\<in>set ys. \<exists>e. x = Tuple [e, PyList []])"
    by (rule Cons.IH)
  ultimately show ?case using xs by auto
qed

lemma worst_case_log_never_reports:
  assumes "riskmodels self \<noteq> []" and "risks self = None"
  shows "WorstCaseRisk_optimization_log (snd (WorstCaseRisk_estimate self w)) = Inl AttributeError"
proof (cases "weight_exprs (riskmodels self) w")
  case (Pair r rms)
  show ?thesis
  proof (cases r)
    case (Inl e)
    with Pair assms show ?thesis
      by (simp add: WorstCaseRisk_estimate_def WorstCaseRisk_optimization_log_def)
  next
    case (Inr xs)
    with Pair have "length xs = length (riskmodels self)"
      and t: "\<forall>x\<in>set xs. \<exists>e. x = Tuple [e, PyList []]"
      using weight_exprs_result by blast+
    with assms obtain x xs' where xs: "xs = x # xs'" by (cases xs) auto
    with t obtain e where "x = Tuple [e, PyList []]" by auto
    with xs Inr Pair show ?thesis
      by (simp add: WorstCaseRisk_estimate_def WorstCaseRisk_optimization_log_def value00_def
          bind_def)
  qed
qed

section \<open>Construction\<close>



section \<open>Effects of compile\<close>





end
